theory Spec2Isabelle
  imports Main "HOL-Library.Word"
begin

unbundle bit_operations_syntax

section \<open>Go values\<close>

text \<open>
  The package \<^verbatim>\<open>ipfilter\<close> (file \<^verbatim>\<open>iplist.go\<close>) is embedded function by function.
  A Go function either returns or panics (an index or a slice bound out of range, a nil
  pointer dereference): \<open>Panic\<close> is the panic, \<open>Ret v\<close> the returned value. A Go
  \<^verbatim>\<open>error\<close> result is an \<open>error option\<close>, \<open>None\<close> for \<^verbatim>\<open>nil\<close>.
\<close>

datatype 'a run = Panic | Ret 'a

datatype error =
    EOF
  | ErrDNSNotFound
  | ParseError string string
  | AddrError string string
  | OtherError string

type_synonym byte = "8 word"
type_synonym uint16 = "16 word"

section \<open>The functions of Go's package net that the code calls\<close>

text \<open>
  \<^verbatim>\<open>net.IP\<close> and \<^verbatim>\<open>net.IPMask\<close> are byte slices. A nil slice is the empty list: the
  code only takes the length of these slices, indexes them and compares results with
  \<^verbatim>\<open>nil\<close> that are either \<^verbatim>\<open>nil\<close> or non-empty. A slice's capacity is taken to be its
  length.
\<close>

type_synonym IP = "byte list"
type_synonym IPMask = "byte list"

record IPNet =
  IP :: IP
  Mask :: IPMask

abbreviation IPv4len :: nat where "IPv4len \<equiv> 4"
abbreviation IPv6len :: nat where "IPv6len \<equiv> 16"

definition v4InV6Prefix :: "byte list" where
  "v4InV6Prefix = [0, 0, 0, 0, 0, 0, 0, 0, 0, 0, 0xff, 0xff]"

definition IPv4 :: "byte \<Rightarrow> byte \<Rightarrow> byte \<Rightarrow> byte \<Rightarrow> IP" where
  "IPv4 a b c d = v4InV6Prefix @ [a, b, c, d]"

definition isZeros :: "byte list \<Rightarrow> bool" where
  "isZeros p = list_all (\<lambda>b. b = 0) p"

definition allFF :: "byte list \<Rightarrow> bool" where
  "allFF b = list_all (\<lambda>c. c = 0xff) b"

text \<open>\<^verbatim>\<open>func (ip IP) To4() IP\<close>: the 4-byte form of an IPv4 address, else nil.\<close>

definition To4 :: "IP \<Rightarrow> IP" where
  "To4 ip =
     (if length ip = IPv4len then ip
      else if length ip = IPv6len \<and> isZeros (take 10 ip) \<and> ip ! 10 = 0xff \<and> ip ! 11 = 0xff
        then take 4 (drop 12 ip)
      else [])"

text \<open>\<^verbatim>\<open>func (ip IP) Mask(mask IPMask) IP\<close>.\<close>

definition IP_Mask :: "IP \<Rightarrow> IPMask \<Rightarrow> IP" where
  "IP_Mask ip0 mask0 =
     (let msk = (if length mask0 = IPv6len \<and> length ip0 = IPv4len \<and> allFF (take 12 mask0)
                 then drop 12 mask0 else mask0);
          ip = (if length msk = IPv4len \<and> length ip0 = IPv6len \<and> take 12 ip0 = v4InV6Prefix
                then drop 12 ip0 else ip0)
      in if length ip \<noteq> length msk then [] else map2 (AND) ip msk)"

text \<open>\<^verbatim>\<open>func CIDRMask(ones, bits int) IPMask\<close>; \<open>CIDRMask_loop\<close> is its loop over the
  bytes of the mask \<open>m\<close>, with \<open>n\<close> the ones still to write.\<close>

function CIDRMask_loop :: "nat \<Rightarrow> nat \<Rightarrow> nat \<Rightarrow> IPMask \<Rightarrow> IPMask" where
  "CIDRMask_loop i l n m =
     (if \<not> i < l then m
      else if n \<ge> 8 then CIDRMask_loop (i + 1) l (n - 8) (m[i := 0xff])
      else CIDRMask_loop (i + 1) l 0 (m[i := NOT (drop_bit n (0xff :: byte))]))"
  by pat_completeness auto
termination
  by (relation "measure (\<lambda>(i, l, n, m). l - i)") auto

definition CIDRMask :: "nat \<Rightarrow> nat \<Rightarrow> IPMask" where
  "CIDRMask ones bits =
     (if bits \<noteq> 8 * IPv4len \<and> bits \<noteq> 8 * IPv6len then []
      else if ones > bits then []
      else CIDRMask_loop 0 (bits div 8) ones (replicate (bits div 8) 0))"

text \<open>
  \<^verbatim>\<open>func simpleMaskLength(mask IPMask) int\<close>. The inner loop
  \<^verbatim>\<open>for v&0x80 != 0 { n++; v <<= 1 }\<close> is \<open>leading_ones\<close>: it returns the count and
  the shifted byte. The result \<open>-1\<close> is \<open>None\<close>.
\<close>

function leading_ones :: "byte \<Rightarrow> nat \<times> byte" where
  "leading_ones v =
     (if v AND 0x80 \<noteq> 0
      then (case leading_ones (push_bit 1 v) of (k, v') \<Rightarrow> (Suc k, v'))
      else (0, v))"
  by pat_completeness auto

lemma top_bit_set_ge: "v AND 0x80 \<noteq> 0 \<Longrightarrow> 128 \<le> unat (v :: byte)"
proof (rule ccontr)
  assume nz: "v AND 0x80 \<noteq> 0" and "\<not> 128 \<le> unat v"
  then have "v < 2 ^ 7" by (simp add: word_less_nat_alt)
  then have tb: "v AND mask 7 = v" by (rule less_mask_eq)
  have "(v AND mask k) AND 2 ^ k = 0" for k
    by (rule bit_eqI) (auto simp: bit_simps)
  from this [of 7] tb have "v AND 2 ^ 7 = 0" by simp
  then have "v AND 0x80 = 0" by simp
  with nz show False by simp
qed

lemma shift_left_decreases: "128 \<le> unat (v :: byte) \<Longrightarrow> unat (push_bit 1 v) < unat v"
proof -
  assume h: "128 \<le> unat v"
  have lt: "unat v < 256" using unsigned_less [of v, where 'a = nat] by simp
  have "unat (push_bit 1 v) = (unat v * 2) mod 256"
    by (simp add: push_bit_eq_mult unat_word_ariths)
  also have "\<dots> = unat v * 2 - 256" using h lt by (simp add: mod_if)
  finally show ?thesis using h lt by linarith
qed

termination leading_ones
  by (relation "measure unat") (auto dest!: top_bit_set_ge shift_left_decreases)

fun simpleMaskLength_from :: "nat \<Rightarrow> byte list \<Rightarrow> nat option" where
  "simpleMaskLength_from n [] = Some n"
| "simpleMaskLength_from n (v # msk) =
     (if v = 0xff then simpleMaskLength_from (n + 8) msk
      else (case leading_ones v of (k, v') \<Rightarrow>
        if v' \<noteq> 0 then None
        else if list_all (\<lambda>b. b = 0) msk then Some (n + k)
        else None))"

definition simpleMaskLength :: "IPMask \<Rightarrow> nat option" where
  "simpleMaskLength msk = simpleMaskLength_from 0 msk"

text \<open>\<^verbatim>\<open>func (m IPMask) Size() (ones, bits int)\<close>: \<open>(0, 0)\<close> for a mask that is not
  ones followed by zeros.\<close>

definition Size :: "IPMask \<Rightarrow> nat \<times> nat" where
  "Size m = (case simpleMaskLength m of None \<Rightarrow> (0, 0) | Some ones \<Rightarrow> (ones, length m * 8))"

text \<open>\<^verbatim>\<open>func networkNumberAndMask(n *IPNet) (ip IP, m IPMask)\<close>; \<open>([], [])\<close> is its
  \<^verbatim>\<open>nil, nil\<close>.\<close>

definition networkNumberAndMask :: "IPNet \<Rightarrow> IP \<times> IPMask" where
  "networkNumberAndMask n =
     (let ip = (if To4 (IP n) \<noteq> [] then To4 (IP n) else IP n) in
      if To4 (IP n) = [] \<and> length ip \<noteq> IPv6len then ([], [])
      else let m = Mask n in
        if length m = IPv4len then (if length ip \<noteq> IPv4len then ([], []) else (ip, m))
        else if length m = IPv6len then (if length ip = IPv4len then (ip, drop 12 m) else (ip, m))
        else ([], []))"

text \<open>\<^verbatim>\<open>func (n *IPNet) Contains(ip IP) bool\<close>.\<close>

definition Contains :: "IPNet \<Rightarrow> IP \<Rightarrow> bool" where
  "Contains n ip0 =
     (case networkNumberAndMask n of (nn, m) \<Rightarrow>
        let ip = (if To4 ip0 \<noteq> [] then To4 ip0 else ip0); l = length ip in
        if l \<noteq> length nn then False
        else list_all (\<lambda>i. nn ! i AND m ! i = ip ! i AND m ! i) [0..<l])"

text \<open>\<^verbatim>\<open>binary.BigEndian.Uint16\<close> of a slice of two bytes.\<close>

definition Uint16 :: "byte list \<Rightarrow> uint16" where
  "Uint16 b = (ucast (b ! 1) :: uint16) OR push_bit 8 (ucast (b ! 0) :: uint16)"

section \<open>Text parsing in Go's packages net and strings\<close>

text \<open>
  The parsers follow \<^verbatim>\<open>net/parse.go\<close> and \<^verbatim>\<open>net/ip.go\<close> as they stood when the package
  was written (\<^verbatim>\<open>dtoi\<close>, \<^verbatim>\<open>xtoi\<close>, \<^verbatim>\<open>parseIPv4\<close>, \<^verbatim>\<open>parseIPv6\<close>, \<^verbatim>\<open>ParseIP\<close>,
  \<^verbatim>\<open>ParseCIDR\<close>). A string is its list of bytes.
\<close>

abbreviation big :: nat where "big \<equiv> 0xFFFFFF"

definition isDigit :: "char \<Rightarrow> bool" where
  "isDigit c = ((of_char (CHR ''0'') :: nat) \<le> of_char c \<and> (of_char c :: nat) \<le> of_char (CHR ''9''))"

text \<open>\<^verbatim>\<open>func dtoi(s string) (n int, i int, ok bool)\<close>.\<close>

fun dtoi_loop :: "string \<Rightarrow> nat \<Rightarrow> nat \<Rightarrow> nat \<times> nat \<times> bool" where
  "dtoi_loop [] n i = (n, i, True)"
| "dtoi_loop (c # s) n i =
     (if isDigit c
      then (let n' = n * 10 + (of_char c - of_char (CHR ''0'')) in
            if n' \<ge> big then (big, i, False) else dtoi_loop s n' (i + 1))
      else (n, i, True))"

definition dtoi :: "string \<Rightarrow> nat \<times> nat \<times> bool" where
  "dtoi s =
     (case dtoi_loop s 0 0 of (n, i, ok) \<Rightarrow>
        if \<not> ok then (n, i, False)
        else if i = 0 then (0, 0, False)
        else (n, i, True))"

definition hexDigit :: "char \<Rightarrow> nat option" where
  "hexDigit c =
     (let b = (of_char c :: nat) in
      if of_char (CHR ''0'') \<le> b \<and> b \<le> of_char (CHR ''9'') then Some (b - of_char (CHR ''0''))
      else if of_char (CHR ''a'') \<le> b \<and> b \<le> of_char (CHR ''f'') then Some (b - of_char (CHR ''a'') + 10)
      else if of_char (CHR ''A'') \<le> b \<and> b \<le> of_char (CHR ''F'') then Some (b - of_char (CHR ''A'') + 10)
      else None)"

text \<open>\<^verbatim>\<open>func xtoi(s string) (n int, i int, ok bool)\<close>.\<close>

fun xtoi_loop :: "string \<Rightarrow> nat \<Rightarrow> nat \<Rightarrow> nat \<times> nat \<times> bool" where
  "xtoi_loop [] n i = (n, i, True)"
| "xtoi_loop (c # s) n i =
     (case hexDigit c of
        None \<Rightarrow> (n, i, True)
      | Some d \<Rightarrow>
          (let n' = n * 16 + d in
           if n' \<ge> big then (0, i, False) else xtoi_loop s n' (i + 1)))"

definition xtoi :: "string \<Rightarrow> nat \<times> nat \<times> bool" where
  "xtoi s =
     (case xtoi_loop s 0 0 of (n, i, ok) \<Rightarrow>
        if \<not> ok then (n, i, False)
        else if i = 0 then (0, i, False)
        else (n, i, True))"

text \<open>\<^verbatim>\<open>func parseIPv4(s string) IP\<close>: the loop over the four octets, then the check
  that the whole string was used. \<open>None\<close> is the loop's \<^verbatim>\<open>return nil\<close>.\<close>

function parseIPv4_loop :: "nat \<Rightarrow> string \<Rightarrow> byte list \<Rightarrow> (string \<times> byte list) option" where
  "parseIPv4_loop i s p =
     (if \<not> i < IPv4len then Some (s, p)
      else if length s = 0 then None
      else if i > 0 \<and> hd s \<noteq> CHR ''.'' then None
      else (let s1 = (if i > 0 then tl s else s) in
        case dtoi s1 of (n, c, ok) \<Rightarrow>
          if \<not> ok \<or> n > 0xFF then None
          else parseIPv4_loop (i + 1) (drop c s1) (p[i := of_nat n])))"
  by pat_completeness auto
termination
  by (relation "measure (\<lambda>(i, s, p). IPv4len - i)") auto

definition parseIPv4 :: "string \<Rightarrow> IP" where
  "parseIPv4 s =
     (case parseIPv4_loop 0 s [0, 0, 0, 0] of
        None \<Rightarrow> []
      | Some (s', p) \<Rightarrow> if length s' \<noteq> 0 then [] else IPv4 (p ! 0) (p ! 1) (p ! 2) (p ! 3))"

text \<open>
  \<^verbatim>\<open>func parseIPv6(s string) IP\<close>. The loop's state is the address built so far, the
  index \<open>i\<close>, the rest of the string and the position of the ellipsis (\<open>None\<close> for
  \<open>-1\<close>); \<open>None\<close> is \<^verbatim>\<open>return nil\<close>, \<open>Some\<close> the state at the loop's exit.
\<close>

function parseIPv6_loop ::
  "IP \<Rightarrow> nat \<Rightarrow> string \<Rightarrow> nat option \<Rightarrow> (IP \<times> nat \<times> string \<times> nat option) option" where
  "parseIPv6_loop ip i s ellipsis =
     (if \<not> i < IPv6len then Some (ip, i, s, ellipsis)
      else (case xtoi s of (n, c, ok) \<Rightarrow>
        if \<not> ok \<or> n > 0xFFFF then None
        else if c < length s \<and> s ! c = CHR ''.'' then
          (if ellipsis = None \<and> i \<noteq> IPv6len - IPv4len then None
           else if i + IPv4len > IPv6len then None
           else (let ip4 = parseIPv4 s in
             if ip4 = [] then None
             else Some (ip[i := ip4 ! 12, i + 1 := ip4 ! 13, i + 2 := ip4 ! 14, i + 3 := ip4 ! 15],
                        i + IPv4len, [], ellipsis)))
        else (let ip' = ip[i := of_nat (n div 256), i + 1 := of_nat n];
                  i' = i + 2;
                  s1 = drop c s in
          if length s1 = 0 then Some (ip', i', s1, ellipsis)
          else if hd s1 \<noteq> CHR '':'' \<or> length s1 = 1 then None
          else (let s2 = tl s1 in
            if hd s2 = CHR '':'' then
              (if ellipsis \<noteq> None then None
               else (let s3 = tl s2 in
                 if length s3 = 0 then Some (ip', i', s3, Some i')
                 else parseIPv6_loop ip' i' s3 (Some i')))
            else parseIPv6_loop ip' i' s2 ellipsis))))"
  by pat_completeness auto
termination
  by (relation "measure (\<lambda>(ip, i, s, ellipsis). IPv6len - i)") auto

text \<open>After the loop: the whole string must be used; a short address is expanded at the
  ellipsis (the groups after it move to the end, zeros fill the gap).\<close>

definition parseIPv6 :: "string \<Rightarrow> IP" where
  "parseIPv6 s0 =
     (let start = (if length s0 \<ge> 2 \<and> s0 ! 0 = CHR '':'' \<and> s0 ! 1 = CHR '':''
                   then (Some 0, drop 2 s0) else (None, s0)) in
      case start of (ellipsis0, s) \<Rightarrow>
        if ellipsis0 \<noteq> None \<and> length s = 0 then replicate IPv6len 0
        else (case parseIPv6_loop (replicate IPv6len 0) 0 s ellipsis0 of
          None \<Rightarrow> []
        | Some (ip, i, s', ellipsis) \<Rightarrow>
            if length s' \<noteq> 0 then []
            else if i < IPv6len then
              (case ellipsis of
                 None \<Rightarrow> []
               | Some e \<Rightarrow> take e ip @ replicate (IPv6len - i) 0 @ take (i - e) (drop e ip))
            else if ellipsis \<noteq> None then []
            else ip))"

text \<open>\<^verbatim>\<open>func ParseIP(s string) IP\<close>: the first dot or colon decides the form.\<close>

definition ParseIP :: "string \<Rightarrow> IP" where
  "ParseIP s =
     (case find (\<lambda>c. c = CHR ''.'' \<or> c = CHR '':'') s of
        None \<Rightarrow> []
      | Some c \<Rightarrow> if c = CHR ''.'' then parseIPv4 s else parseIPv6 s)"

text \<open>The index of the first (last) occurrence of a byte, \<open>None\<close> for \<open>-1\<close>.\<close>

definition IndexByte :: "string \<Rightarrow> char \<Rightarrow> nat option" where
  "IndexByte s c = (if c \<in> set s then Some (length (takeWhile (\<lambda>x. x \<noteq> c) s)) else None)"

definition LastIndexByte :: "string \<Rightarrow> char \<Rightarrow> nat option" where
  "LastIndexByte s c =
     (if c \<in> set s then Some (length s - 1 - length (takeWhile (\<lambda>x. x \<noteq> c) (rev s))) else None)"

text \<open>\<^verbatim>\<open>func ParseCIDR(s string) (IP, *IPNet, error)\<close>; the first result is not used by the
  package and is left out.\<close>

definition ParseCIDR :: "string \<Rightarrow> error + IPNet" where
  "ParseCIDR s =
     (case IndexByte s (CHR ''/'') of
        None \<Rightarrow> Inl (ParseError ''CIDR address'' s)
      | Some i \<Rightarrow>
          (let addr = take i s;
               msk = drop (i + 1) s;
               ip4 = parseIPv4 addr;
               iplen = (if ip4 = [] then IPv6len else IPv4len);
               ip = (if ip4 = [] then parseIPv6 addr else ip4)
           in case dtoi msk of (n, j, ok) \<Rightarrow>
             if ip = [] \<or> \<not> ok \<or> j \<noteq> length msk \<or> n > 8 * iplen
             then Inl (ParseError ''CIDR address'' s)
             else (let m = CIDRMask n (8 * iplen) in Inr \<lparr>IP = IP_Mask ip m, Mask = m\<rparr>)))"

text \<open>\<^verbatim>\<open>strings.Split(s, sep)\<close> for a separator of one byte, and
  \<^verbatim>\<open>strings.Trim(s, cutset)\<close>.\<close>

fun Split :: "string \<Rightarrow> char \<Rightarrow> string list" where
  "Split [] sep = [[]]"
| "Split (c # s) sep =
     (if c = sep then [] # Split s sep
      else (case Split s sep of [] \<Rightarrow> [[c]] | t # ts \<Rightarrow> (c # t) # ts))"

definition Trim :: "string \<Rightarrow> string \<Rightarrow> string" where
  "Trim s cutset =
     rev (dropWhile (\<lambda>c. c \<in> set cutset) (rev (dropWhile (\<lambda>c. c \<in> set cutset) s)))"

definition HasSuffix :: "string \<Rightarrow> string \<Rightarrow> bool" where
  "HasSuffix s suffix =
     (length s \<ge> length suffix \<and> drop (length s - length suffix) s = suffix)"

section \<open>The range index: IPFilter\<close>

record IPFilter =
  rest :: "IPNet list"
  idx1 :: "byte \<rightharpoonup> IPNet list"
  idx2 :: "uint16 \<rightharpoonup> IPNet list"

fun ListConatins :: "IPNet list \<Rightarrow> IP \<Rightarrow> bool" where
  "ListConatins [] ip = False"
| "ListConatins (ipnet # iplist) ip = (if Contains ipnet ip then True else ListConatins iplist ip)"

text \<open>\<^verbatim>\<open>func (f IPFilter) Contain(ip net.IP) bool\<close>. The slice \<^verbatim>\<open>ip[:2]\<close> panics on an
  address shorter than two bytes.\<close>

definition Contain :: "IPFilter \<Rightarrow> IP \<Rightarrow> bool run" where
  "Contain f ip0 =
     (let ip = (if To4 ip0 \<noteq> [] then To4 ip0 else ip0) in
      if length ip < 2 then Panic
      else let prefix2 = Uint16 (take 2 ip) in
        if (case idx2 f prefix2 of Some iplist \<Rightarrow> ListConatins iplist ip | None \<Rightarrow> False)
        then Ret True
        else let prefix1 = ip ! 0 in
          if (case idx1 f prefix1 of Some iplist \<Rightarrow> ListConatins iplist ip | None \<Rightarrow> False)
          then Ret True
          else if ListConatins (rest f) ip then Ret True
          else Ret False)"

section \<open>Parsing a line and loading a list\<close>

text \<open>
  \<^verbatim>\<open>func ParseLine(line string) (ipnet *net.IPNet, err error)\<close>. After a failed
  \<^verbatim>\<open>ParseCIDR\<close> the error is reset to nil and the line is split at spaces;
  \<^verbatim>\<open>addrs[1]\<close> panics when the line has no space. Nothing on this path sets the error
  again.
\<close>

definition ParseLine :: "string \<Rightarrow> (IPNet \<times> error option) run" where
  "ParseLine line =
     (case ParseCIDR line of
        Inr ipnet \<Rightarrow> Ret (ipnet, None)
      | Inl e \<Rightarrow>
          (let addrs = Split line (CHR '' '');
               ip0 = ParseIP (addrs ! 0);
               ip = (if To4 ip0 \<noteq> [] then To4 ip0 else ip0)
           in if length addrs < 2 then Panic
              else (let mask0 = ParseIP (addrs ! 1);
                        msk = (if To4 mask0 \<noteq> [] then To4 mask0 else mask0)
                    in Ret (\<lparr>IP = ip, Mask = msk\<rparr>, None))))"

text \<open>
  A \<^verbatim>\<open>bufio.Reader\<close> over a finite stream: the bytes not yet read, and the error the
  underlying reader gives once they are used up (\<open>EOF\<close> for a stream that just ends).
  \<^verbatim>\<open>ReadString(delim)\<close> returns the bytes up to and including the first delimiter, or
  all remaining bytes together with that error.
\<close>

record Reader =
  pending :: string
  final :: error

definition ReadString :: "Reader \<Rightarrow> char \<Rightarrow> (string \<times> error option) \<times> Reader" where
  "ReadString r delim =
     (case IndexByte (pending r) delim of
        Some i \<Rightarrow> ((take (i + 1) (pending r), None), r\<lparr>pending := drop (i + 1) (pending r)\<rparr>)
      | None \<Rightarrow> ((pending r, Some (final r)), r\<lparr>pending := []\<rparr>))"

text \<open>
  The body of the loop of \<^verbatim>\<open>ReadIPList\<close> after a line is parsed (the \<^verbatim>\<open>switch\<close>
  on \<^verbatim>\<open>ones\<close>): the range is appended to the list its prefix length selects. Reading a
  missing key of a Go map gives the nil slice. \<^verbatim>\<open>ipnet.IP[0]\<close> and \<^verbatim>\<open>ipnet.IP[:2]\<close>
  panic on a shorter address.
\<close>

definition insert_range :: "IPFilter \<Rightarrow> IPNet \<Rightarrow> IPFilter run" where
  "insert_range flt ipnet =
     (let ones = fst (Size (Mask ipnet)) in
      if ones < 8 then Ret (flt\<lparr>rest := rest flt @ [ipnet]\<rparr>)
      else if ones \<ge> 8 \<and> ones < 16 then
        (if length (IP ipnet) < 1 then Panic
         else (let prefix = IP ipnet ! 0 in
           Ret (flt\<lparr>idx1 := (idx1 flt)(prefix \<mapsto>
                  (case idx1 flt prefix of None \<Rightarrow> [] | Some l \<Rightarrow> l) @ [ipnet])\<rparr>)))
      else
        (if length (IP ipnet) < 2 then Panic
         else (let prefix = Uint16 (take 2 (IP ipnet)) in
           Ret (flt\<lparr>idx2 := (idx2 flt)(prefix \<mapsto>
                  (case idx2 flt prefix of None \<Rightarrow> [] | Some l \<Rightarrow> l) @ [ipnet])\<rparr>))))"

abbreviation cutset :: string where "cutset \<equiv> [CHR 0x0D, CHR 0x0A, CHR '' '']"

text \<open>
  \<^verbatim>\<open>func ReadIPList(f io.Reader) (filter *IPFilter, err error)\<close>: the loop labelled
  \<^verbatim>\<open>QUIT\<close>. The counter and the log lines feed the logger only and are left out.
\<close>

function ReadIPList_loop :: "Reader \<Rightarrow> IPFilter \<Rightarrow> (IPFilter option \<times> error option) run" where
  "ReadIPList_loop reader flt =
     (let res = ReadString reader (CHR 0x0A);
          line = fst (fst res);
          err = snd (fst res);
          reader' = snd res
      in if err = Some EOF \<and> length line = 0 then Ret (Some flt, None)
         else if err \<noteq> None \<and> err \<noteq> Some EOF then Ret (None, err)
         else (case ParseLine (Trim line cutset) of
                 Panic \<Rightarrow> Panic
               | Ret pr \<Rightarrow>
                   if snd pr \<noteq> None then Ret (None, snd pr)
                   else (case insert_range flt (fst pr) of
                           Panic \<Rightarrow> Panic
                         | Ret flt' \<Rightarrow> ReadIPList_loop reader' flt')))"
  by pat_completeness auto

lemma IndexByte_less: "IndexByte s c = Some i \<Longrightarrow> i < length s"
proof -
  have "c \<in> set s \<Longrightarrow> length (takeWhile (\<lambda>x. x \<noteq> c) s) < length s"
    by (induction s) auto
  then show "IndexByte s c = Some i \<Longrightarrow> i < length s"
    by (auto simp: IndexByte_def split: if_splits)
qed

lemma ReadString_shrinks:
  "ReadString r d = ((line, err), r') \<Longrightarrow> line \<noteq> [] \<Longrightarrow> length (pending r') < length (pending r)"
  by (auto simp: ReadString_def split: option.splits dest: IndexByte_less)

termination ReadIPList_loop
proof (relation "measure (\<lambda>(r, f). length (pending r))", goal_cases)
  case 1
  show ?case by simp
next
  case (2 reader flt res line err reader' pr flt')
  have rs: "ReadString reader (CHR 0x0A) = ((line, err), reader')"
    using 2 by simp
  have "line \<noteq> []"
  proof
    assume e: "line = []"
    with rs have "err = Some (final reader)"
      by (auto simp: ReadString_def split: option.splits dest: IndexByte_less)
    with 2 e show False by auto
  qed
  from ReadString_shrinks [OF rs this] show ?case by simp
qed

declare ReadIPList_loop.simps [simp del]

definition ReadIPList :: "Reader \<Rightarrow> (IPFilter option \<times> error option) run" where
  "ReadIPList f = ReadIPList_loop f \<lparr>rest = [], idx1 = Map.empty, idx2 = Map.empty\<rparr>"

text \<open>
  \<^verbatim>\<open>func ReadIPListFile(filename string) (filter *IPFilter, err error)\<close>. The file
  system and the gzip decoder are outside the package: \<open>Open\<close> gives the stream of a
  file or the error of \<^verbatim>\<open>os.Open\<close>, \<open>gzip_NewReader\<close> the decoded stream or the error
  of \<^verbatim>\<open>gzip.NewReader\<close>.
\<close>

record os =
  Open :: "string \<Rightarrow> error + Reader"
  gzip_NewReader :: "Reader \<Rightarrow> error + Reader"

definition ReadIPListFile :: "os \<Rightarrow> string \<Rightarrow> (IPFilter option \<times> error option) run" where
  "ReadIPListFile env filename =
     (case Open env filename of
        Inl e \<Rightarrow> Ret (None, Some e)
      | Inr f \<Rightarrow>
          if HasSuffix filename ''.gz''
          then (case gzip_NewReader env f of
                  Inl e \<Rightarrow> Ret (None, Some e)
                | Inr g \<Rightarrow> ReadIPList g)
          else ReadIPList f)"

section \<open>The routing dialer\<close>

text \<open>
  A \<^verbatim>\<open>netutil.Dialer\<close> is known by its identity; what dialing through it returns is
  given by \<open>dial\<close> of the network. The resolver of a \<^verbatim>\<open>FilteredDialer\<close> is its
  \<^verbatim>\<open>LookupIP\<close>; the address list it returns is \<open>None\<close> for a nil slice. Calls to the
  collaborators are recorded as events, in order.
\<close>

type_synonym Dialer = nat
type_synonym Conn = nat
type_synonym Resolver = "string \<Rightarrow> IP list option \<times> error option"
type_synonym network = "Dialer \<Rightarrow> string \<Rightarrow> string \<Rightarrow> Conn option \<times> error option"

datatype event = LookupIP_call string | Dial_call Dialer string string

record FilterPair =
  fp_dialer :: Dialer
  fp_filter :: "IPFilter option"

record FilteredDialer =
  fd_dialer :: Dialer
  fd_Resolver :: Resolver
  fd_fps :: "FilterPair list"

text \<open>\<^verbatim>\<open>func (fd *FilteredDialer) LoadFilter(dialer netutil.Dialer, filename string) (err error)\<close>:
  the new state of the dialer and the error.\<close>

definition LoadFilter ::
  "os \<Rightarrow> FilteredDialer \<Rightarrow> Dialer \<Rightarrow> string \<Rightarrow> (FilteredDialer \<times> error option) run" where
  "LoadFilter env fd dialer filename =
     (case ReadIPListFile env filename of
        Panic \<Rightarrow> Panic
      | Ret res \<Rightarrow>
          Ret (fd\<lparr>fd_fps := fd_fps fd @ [\<lparr>fp_dialer = dialer, fp_filter = fst res\<rparr>]\<rparr>, snd res))"

text \<open>\<^verbatim>\<open>func Getaddrs(resolver dns.Resolver, hostname string) (ips []net.IP)\<close>.\<close>

definition Getaddrs :: "Resolver \<Rightarrow> string \<Rightarrow> IP list option \<times> event list" where
  "Getaddrs resolver hostname =
     (let ip = ParseIP hostname in
      if ip \<noteq> [] then (Some [ip], [])
      else (fst (resolver hostname), [LookupIP_call hostname]))"

text \<open>
  \<^verbatim>\<open>net.SplitHostPort\<close>. \<open>SplitHostPort_rest\<close> is the part after the host is cut out:
  the checks for a stray bracket from the positions \<open>j\<close> and \<open>k\<close>, and the port after
  the last colon, at \<open>i\<close>.
\<close>

definition quoted :: "char \<Rightarrow> string" where
  "quoted c = [CHR 0x27, c, CHR 0x27]"

definition SplitHostPort_rest ::
  "string \<Rightarrow> string \<Rightarrow> nat \<Rightarrow> nat \<Rightarrow> nat \<Rightarrow> error + string \<times> string" where
  "SplitHostPort_rest hostport host i j k =
     (if IndexByte (drop j hostport) (CHR ''['') \<noteq> None
      then Inl (AddrError (''unexpected '' @ quoted (CHR ''['') @ '' in address'') hostport)
      else if IndexByte (drop k hostport) (CHR '']'') \<noteq> None
      then Inl (AddrError (''unexpected '' @ quoted (CHR '']'') @ '' in address'') hostport)
      else Inr (host, drop (i + 1) hostport))"

definition SplitHostPort :: "string \<Rightarrow> error + string \<times> string" where
  "SplitHostPort hostport =
     (let missingPort = ''missing port in address'';
          tooManyColons = ''too many colons in address''
      in case LastIndexByte hostport (CHR '':'') of
        None \<Rightarrow> Inl (AddrError missingPort hostport)
      | Some i \<Rightarrow>
          if hostport ! 0 = CHR ''[''
          then (case IndexByte hostport (CHR '']'') of
              None \<Rightarrow> Inl (AddrError (''missing '' @ quoted (CHR '']'') @ '' in address'') hostport)
            | Some e \<Rightarrow>
                if e + 1 = length hostport then Inl (AddrError missingPort hostport)
                else if e + 1 = i
                  then SplitHostPort_rest hostport (take (e - 1) (drop 1 hostport)) i 1 (e + 1)
                else if hostport ! (e + 1) = CHR '':'' then Inl (AddrError tooManyColons hostport)
                else Inl (AddrError missingPort hostport))
          else if IndexByte (take i hostport) (CHR '':'') \<noteq> None
            then Inl (AddrError tooManyColons hostport)
          else SplitHostPort_rest hostport (take i hostport) i 0 0)"

text \<open>
  The two loops of \<^verbatim>\<open>Dial\<close>: over the addresses for one pair, and over the pairs.
  \<^verbatim>\<open>fp.filter.Contain(addr)\<close> dereferences \<^verbatim>\<open>fp.filter\<close>: a nil filter panics.
\<close>

fun Dial_addrs :: "IPFilter option \<Rightarrow> IP list \<Rightarrow> bool run" where
  "Dial_addrs flt [] = Ret False"
| "Dial_addrs flt (addr # addrs) =
     (case flt of
        None \<Rightarrow> Panic
      | Some f \<Rightarrow>
          (case Contain f addr of
             Panic \<Rightarrow> Panic
           | Ret b \<Rightarrow> if b then Ret True else Dial_addrs flt addrs))"

fun Dial_fps :: "FilterPair list \<Rightarrow> IP list \<Rightarrow> Dialer option run" where
  "Dial_fps [] addrs = Ret None"
| "Dial_fps (fp # fps) addrs =
     (case Dial_addrs (fp_filter fp) addrs of
        Panic \<Rightarrow> Panic
      | Ret b \<Rightarrow> if b then Ret (Some (fp_dialer fp)) else Dial_fps fps addrs)"

text \<open>\<^verbatim>\<open>func (fd *FilteredDialer) Dial(network, address string) (conn net.Conn, err error)\<close>:
  the result and the calls made to the resolver and the dialers.\<close>

definition Dial ::
  "network \<Rightarrow> FilteredDialer \<Rightarrow> string \<Rightarrow> string \<Rightarrow> ((Conn option \<times> error option) \<times> event list) run" where
  "Dial dial fd net address =
     (if length (fd_fps fd) = 0
      then Ret (dial (fd_dialer fd) net address, [Dial_call (fd_dialer fd) net address])
      else (case SplitHostPort address of
        Inl e \<Rightarrow> Ret ((None, Some e), [])
      | Inr hp \<Rightarrow>
          (let ga = Getaddrs (fd_Resolver fd) (fst hp) in
           case fst ga of
             None \<Rightarrow> Ret ((None, Some ErrDNSNotFound), snd ga)
           | Some addrs \<Rightarrow>
               (case Dial_fps (fd_fps fd) addrs of
                  Panic \<Rightarrow> Panic
                | Ret (Some d) \<Rightarrow> Ret (dial d net address, snd ga @ [Dial_call d net address])
                | Ret None \<Rightarrow>
                    Ret (dial (fd_dialer fd) net address,
                         snd ga @ [Dial_call (fd_dialer fd) net address])))))"

section \<open>Rules for evaluating the model on concrete inputs\<close>

lemma replicate_numeral: "replicate (numeral k) x = x # replicate (pred_numeral k) x"
  by (simp add: numeral_eq_Suc)

lemmas parse_defs = ParseCIDR_def IndexByte_def LastIndexByte_def parseIPv4_def parseIPv6_def
  dtoi_def xtoi_def isDigit_def hexDigit_def IPv4_def v4InV6Prefix_def CIDRMask_def IP_Mask_def
  ParseIP_def allFF_def isZeros_def To4_def Trim_def replicate_numeral


section \<open>Properties of the routing dialer\<close>





text \<open>
  Claim C10 (pass-through fast path). With no filter pair registered, \<open>Dial\<close> returns
  exactly what the default dialer returns for the same network and address, and the only
  call made is that one dial: the resolver is not asked and the address is not split. The
  statement holds for every address, so also for one \<^verbatim>\<open>SplitHostPort\<close> rejects.
\<close>

theorem Dial_pass_through:
  "fd_fps fd = [] \<Longrightarrow>
   Dial dial fd net address =
     Ret (dial (fd_dialer fd) net address, [Dial_call (fd_dialer fd) net address])"
  by (simp add: Dial_def)


text \<open>A configuration to run the dialer on: two pairs over the list \<^verbatim>\<open>10.0.0.0/8\<close>,
  dialers that return a connection named after themselves, a resolver that finds
  nothing.\<close>

definition net10 :: IPNet where
  "net10 = \<lparr>IP = [10, 0, 0, 0], Mask = [255, 0, 0, 0]\<rparr>"

definition filter10 :: IPFilter where
  "filter10 = \<lparr>rest = [], idx1 = [10 \<mapsto> [net10]], idx2 = Map.empty\<rparr>"

definition echo_dial :: network where
  "echo_dial d n a = (Some d, None)"

definition no_resolver :: Resolver where
  "no_resolver h = (None, Some (OtherError ''no such host''))"

definition two_pairs :: FilteredDialer where
  "two_pairs = \<lparr>fd_dialer = 0, fd_Resolver = no_resolver,
     fd_fps = [\<lparr>fp_dialer = 1, fp_filter = Some filter10\<rparr>, \<lparr>fp_dialer = 2, fp_filter = Some filter10\<rparr>]\<rparr>"

lemma split_10: "SplitHostPort ''10.1.2.3:80'' = Inr (''10.1.2.3'', ''80'')"
  by (simp add: SplitHostPort_def SplitHostPort_rest_def IndexByte_def LastIndexByte_def)


lemma parse_10: "ParseIP ''10.1.2.3'' = [0,0,0,0,0,0,0,0,0,0,255,255,10,1,2,3]"
  by (simp add: parse_defs)





theorem Dial_pass_through_witness:
  "SplitHostPort ''localhost'' = Inl (AddrError ''missing port in address'' ''localhost'')
   \<and> Dial echo_dial \<lparr>fd_dialer = 0, fd_Resolver = no_resolver, fd_fps = []\<rparr> ''tcp'' ''localhost''
       = Ret ((Some 0, None), [Dial_call 0 ''tcp'' ''localhost''])"
  using Dial_pass_through [of "\<lparr>fd_dialer = 0, fd_Resolver = no_resolver, fd_fps = []\<rparr>"
      echo_dial "''tcp''" "''localhost''"]
  by (simp add: echo_dial_def SplitHostPort_def LastIndexByte_def)

section \<open>Resolution that finds nothing\<close>

lemmas load_defs = ReadIPList_def ReadString_def insert_range_def Size_def simpleMaskLength_def
  ParseLine_def

lemma Dial_nil_addrs:
  "fd_fps fd \<noteq> [] \<Longrightarrow> SplitHostPort address = Inr (host, port) \<Longrightarrow>
   Getaddrs (fd_Resolver fd) host = (None, evs) \<Longrightarrow>
   Dial dial fd net address = Ret ((None, Some ErrDNSNotFound), evs)"
  by (simp add: Dial_def)

lemma Dial_fps_no_addrs: "Dial_fps fps [] = Ret None"
  by (induction fps) auto

text \<open>
  Claim C5 (empty resolution). \<open>Dial\<close> tests \<^verbatim>\<open>addrs == nil\<close>. A resolver that finds
  nothing and returns the nil slice gives \<open>ErrDNSNotFound\<close> and no dial
  (\<open>Dial_nil_addrs\<close>). A resolver that returns an empty slice that is not nil, with no
  error, passes the test: the loops run over no address and the default dialer is called.
\<close>

theorem Dial_empty_addrs_falls_through:
  "fd_fps fd \<noteq> [] \<Longrightarrow> SplitHostPort address = Inr (host, port) \<Longrightarrow> ParseIP host = [] \<Longrightarrow>
   fst (fd_Resolver fd host) = Some [] \<Longrightarrow>
   Dial dial fd net address =
     Ret (dial (fd_dialer fd) net address, [LookupIP_call host, Dial_call (fd_dialer fd) net address])"
  by (simp add: Dial_def Getaddrs_def Dial_fps_no_addrs)

definition empty_resolver :: Resolver where
  "empty_resolver h = (Some [], None)"

theorem Dial_empty_addrs_falls_through_witness:
  "Dial echo_dial \<lparr>fd_dialer = 0, fd_Resolver = empty_resolver,
        fd_fps = [\<lparr>fp_dialer = 1, fp_filter = Some filter10\<rparr>]\<rparr> ''tcp'' ''blocked.example:443''
     = Ret ((Some 0, None),
            [LookupIP_call ''blocked.example'', Dial_call 0 ''tcp'' ''blocked.example:443''])"
proof -
  have s: "SplitHostPort ''blocked.example:443'' = Inr (''blocked.example'', ''443'')"
    by (simp add: SplitHostPort_def SplitHostPort_rest_def IndexByte_def LastIndexByte_def)
  have p: "ParseIP ''blocked.example'' = []"
    by (simp add: parse_defs)
  from Dial_empty_addrs_falls_through [OF _ s p, where dial = echo_dial and net = "''tcp''"
      and fd = "\<lparr>fd_dialer = 0, fd_Resolver = empty_resolver,
        fd_fps = [\<lparr>fp_dialer = 1, fp_filter = Some filter10\<rparr>]\<rparr>"]
  show ?thesis by (simp add: empty_resolver_def echo_dial_def)
qed

section \<open>Errors while loading\<close>

lemma ReadIPList_loop_cases:
  assumes rs: "ReadString r (CHR 0x0A) = ((line, err), r')"
  shows "ReadIPList_loop r f =
     (if err = Some EOF \<and> line = [] then Ret (Some f, None)
      else if err \<noteq> None \<and> err \<noteq> Some EOF then Ret (None, err)
      else (case ParseLine (Trim line cutset) of
              Panic \<Rightarrow> Panic
            | Ret pr \<Rightarrow>
                if snd pr \<noteq> None then Ret (None, snd pr)
                else (case insert_range f (fst pr) of
                        Panic \<Rightarrow> Panic
                      | Ret f' \<Rightarrow> ReadIPList_loop r' f')))"
  by (subst ReadIPList_loop.simps) (auto simp: rs Let_def split: run.splits)

lemma ReadString_empty_line:
  "ReadString r d = (([], err), r') \<Longrightarrow> err = Some (final r)"
  by (auto simp: ReadString_def split: option.splits dest: IndexByte_less)

lemma ReadIPList_loop_error_no_index:
  "ReadIPList_loop r f = Ret (x, Some e) \<Longrightarrow> x = None"
proof (induction "length (pending r)" arbitrary: r f rule: less_induct)
  case less
  obtain line err r' where rs: "ReadString r (CHR 0x0A) = ((line, err), r')"
    by (metis surj_pair)
  show ?case
  proof (cases "line = []")
    case True
    with rs have "err = Some (final r)" by (simp add: ReadString_empty_line)
    with less.prems True show ?thesis
      by (auto simp: ReadIPList_loop_cases [OF rs] split: if_splits)
  next
    case False
    from ReadString_shrinks [OF rs False] have "length (pending r') < length (pending r)" .
    from less.hyps [OF this] less.prems show ?thesis
      by (auto simp: ReadIPList_loop_cases [OF rs] split: if_splits run.splits)
  qed
qed

text \<open>
  Claim C3 (a failed load). \<open>LoadFilter\<close> appends the new pair before it looks at the
  error: when it returns an error, the sequence of pairs has grown by a pair whose filter
  is nil. \<open>Dial_after_failed_load\<close> shows what the next dial does with such a pair.
\<close>

theorem LoadFilter_appends_on_error:
  "LoadFilter env fd d filename = Ret (fd', Some e) \<Longrightarrow>
   fd_fps fd' = fd_fps fd @ [\<lparr>fp_dialer = d, fp_filter = None\<rparr>]"
  by (auto simp: LoadFilter_def ReadIPListFile_def ReadIPList_def split: run.splits sum.splits if_splits
           dest: ReadIPList_loop_error_no_index)

definition no_files :: os where
  "no_files = \<lparr>Open = (\<lambda>name. Inl (OtherError ''no such file or directory'')),
                gzip_NewReader = (\<lambda>r. Inr r)\<rparr>"

theorem LoadFilter_appends_on_error_witness:
  "LoadFilter no_files two_pairs 3 ''missing.txt''
     = Ret (two_pairs\<lparr>fd_fps := fd_fps two_pairs @ [\<lparr>fp_dialer = 3, fp_filter = None\<rparr>]\<rparr>,
            Some (OtherError ''no such file or directory''))
   \<and> fd_fps (two_pairs\<lparr>fd_fps := fd_fps two_pairs @ [\<lparr>fp_dialer = 3, fp_filter = None\<rparr>]\<rparr>)
     = fd_fps two_pairs @ [\<lparr>fp_dialer = 3, fp_filter = None\<rparr>]"
proof -
  have l: "LoadFilter no_files two_pairs 3 ''missing.txt''
     = Ret (two_pairs\<lparr>fd_fps := fd_fps two_pairs @ [\<lparr>fp_dialer = 3, fp_filter = None\<rparr>]\<rparr>,
            Some (OtherError ''no such file or directory''))"
    by (simp add: LoadFilter_def ReadIPListFile_def no_files_def)
  from l LoadFilter_appends_on_error [OF l] show ?thesis by simp
qed

lemma Dial_after_failed_load:
  "Dial echo_dial \<lparr>fd_dialer = 0, fd_Resolver = no_resolver,
       fd_fps = [\<lparr>fp_dialer = 3, fp_filter = None\<rparr>]\<rparr> ''tcp'' ''10.1.2.3:80'' = Panic"
  by (simp add: Dial_def split_10 Getaddrs_def parse_10)

text \<open>
  Claim C4 (lines that are no range). \<open>ParseLine\<close> never returns an error. A line
  without a space that is not in CIDR notation panics at \<^verbatim>\<open>addrs[1]\<close>, the empty line
  included; a line of two tokens that are no addresses returns a range whose address and
  mask are nil.
\<close>

theorem ParseLine_never_fails:
  "ParseLine line \<noteq> Ret (ipnet, Some e)
   \<and> ParseLine ''10.0.0.1'' = Panic
   \<and> ParseLine [] = Panic
   \<and> ParseLine ''foo bar'' = Ret (\<lparr>IP = [], Mask = []\<rparr>, None)"
proof (intro conjI)
  show "ParseLine line \<noteq> Ret (ipnet, Some e)"
    by (auto simp: ParseLine_def Let_def split: sum.splits if_splits)
  show "ParseLine ''10.0.0.1'' = Panic"
    by (simp add: ParseLine_def parse_defs)
  show "ParseLine [] = Panic"
    by (simp add: ParseLine_def parse_defs)
  show "ParseLine ''foo bar'' = Ret (\<lparr>IP = [], Mask = []\<rparr>, None)"
    by (simp add: ParseLine_def parse_defs)
qed

text \<open>
  Claim C7 (IPv4 addresses are stored in 4 bytes). An IPv4-mapped address in CIDR
  notation keeps its 16 bytes: the CIDR path returns what \<^verbatim>\<open>ParseCIDR\<close> gives and has
  no \<^verbatim>\<open>To4\<close>. The two-token path, which calls \<^verbatim>\<open>To4\<close>, stores the same address in
  4 bytes, as the CIDR path does for the dotted form.
\<close>

theorem ParseLine_mapped_CIDR_keeps_16_bytes:
  "ParseLine ''::ffff:10.0.0.0/104''
     = Ret (\<lparr>IP = [0, 0, 0, 0, 0, 0, 0, 0, 0, 0, 255, 255, 10, 0, 0, 0],
             Mask = [255, 255, 255, 255, 255, 255, 255, 255, 255, 255, 255, 255, 255, 0, 0, 0]\<rparr>, None)
   \<and> ParseLine ''::ffff:10.0.0.0 255.0.0.0''
     = Ret (\<lparr>IP = [10, 0, 0, 0], Mask = [255, 0, 0, 0]\<rparr>, None)
   \<and> ParseLine ''10.0.0.0/8''
     = Ret (\<lparr>IP = [10, 0, 0, 0], Mask = [255, 0, 0, 0]\<rparr>, None)"
proof (intro conjI)
  show "ParseLine ''::ffff:10.0.0.0/104''
     = Ret (\<lparr>IP = [0, 0, 0, 0, 0, 0, 0, 0, 0, 0, 255, 255, 10, 0, 0, 0],
             Mask = [255, 255, 255, 255, 255, 255, 255, 255, 255, 255, 255, 255, 255, 0, 0, 0]\<rparr>, None)"
    by (simp add: ParseLine_def parse_defs)
  show "ParseLine ''::ffff:10.0.0.0 255.0.0.0''
     = Ret (\<lparr>IP = [10, 0, 0, 0], Mask = [255, 0, 0, 0]\<rparr>, None)"
    by (simp add: ParseLine_def parse_defs)
  show "ParseLine ''10.0.0.0/8''
     = Ret (\<lparr>IP = [10, 0, 0, 0], Mask = [255, 0, 0, 0]\<rparr>, None)"
    by (simp add: ParseLine_def parse_defs)
qed

text \<open>The reader over a stream that ends without a read error.\<close>

definition stream :: "string \<Rightarrow> Reader" where
  "stream s = \<lparr>pending = s, final = EOF\<rparr>"

text \<open>
  Claim C8 (a bad line aborts the load). Since \<open>ParseLine\<close> never returns an error,
  a line that is no range does not make \<open>ReadIPList\<close> return one: the line
  \<^verbatim>\<open>foo bar\<close> is loaded as a range with nil address and nil mask, and the line
  \<^verbatim>\<open>10.0.0.1\<close> panics. When \<open>ReadIPList\<close> does return an error (a read error of the
  stream), it returns no index (\<open>ReadIPList_loop_error_no_index\<close>).
\<close>

theorem ReadIPList_bad_line_no_error:
  "ReadIPList (stream ''foo bar\<newline>'')
     = Ret (Some \<lparr>rest = [\<lparr>IP = [], Mask = []\<rparr>], idx1 = Map.empty, idx2 = Map.empty\<rparr>, None)
   \<and> ReadIPList (stream ''10.0.0.1\<newline>'') = Panic"
proof
  have p: "ParseLine ''foo bar'' = Ret (\<lparr>IP = [], Mask = []\<rparr>, None)"
    by (simp add: ParseLine_def parse_defs)
  show "ReadIPList (stream ''foo bar\<newline>'')
     = Ret (Some \<lparr>rest = [\<lparr>IP = [], Mask = []\<rparr>], idx1 = Map.empty, idx2 = Map.empty\<rparr>, None)"
    by (simp add: ReadIPList_def stream_def ReadIPList_loop.simps ReadString_def IndexByte_def
        Trim_def p insert_range_def Size_def simpleMaskLength_def)
next
  have p: "ParseLine ''10.0.0.1'' = Panic"
    by (simp add: ParseLine_def parse_defs)
  show "ReadIPList (stream ''10.0.0.1\<newline>'') = Panic"
    by (simp add: ReadIPList_def stream_def ReadIPList_loop.simps ReadString_def IndexByte_def
        Trim_def p)
qed

end
